theory Spec2Isabelle
  imports Complex_Main
begin

section \<open>Courier Lifts backend\<close>

text \<open>
  A shallow embedding of the quote, order and tracking code of the backend: the order
  status state machine and the mounted quote operation of \<^verbatim>\<open>orders.py\<close>, the
  geocode stub, the quote engine of \<^verbatim>\<open>quote_engine.py\<close> and the tracking rooms of
  \<^verbatim>\<open>tracking.py\<close>. The definitions come first, the properties after them.

  Python \<^verbatim>\<open>float\<close> columns and values are modelled as \<^typ>\<open>real\<close> throughout:
  arithmetic is exact, and \<^verbatim>\<open>round(x, 2)\<close> is rounding to hundredths with ties
  to even. Python \<^verbatim>\<open>int\<close> is \<^typ>\<open>int\<close>.
\<close>

section \<open>Order status state machine\<close>

text \<open>
  Source: \<^verbatim>\<open>src/backend/models.py\<close> (the enums and the \<^verbatim>\<open>Order\<close> and
  \<^verbatim>\<open>User\<close> tables), \<^verbatim>\<open>src/backend/schemas.py\<close> and
  \<^verbatim>\<open>src/backend/orders.py\<close> (\<^verbatim>\<open>ALLOWED_CHAIN\<close>, \<^verbatim>\<open>can_transition\<close>,
  \<^verbatim>\<open>update_order_status\<close>).
\<close>

datatype UserRole = customer | courier | merchant | admin

datatype OrderStatus = pending | assigned | picked_up | delivered | canceled

text \<open>The columns of \<^verbatim>\<open>class User\<close> that the order routes read.\<close>

record User =
  u_id :: int
  u_role :: UserRole

text \<open>
  \<^verbatim>\<open>class Order\<close>, one field per column; the fields carry the prefix \<open>o_\<close>.
  \<^verbatim>\<open>created_at\<close> is a timestamp, kept as an integer.
\<close>

record Order =
  o_id :: int
  o_user_id :: int
  o_pickup_lat :: real
  o_pickup_lng :: real
  o_dropoff_lat :: real
  o_dropoff_lng :: real
  o_vehicle :: string
  o_item_type :: string
  o_quantity :: int
  o_weight_lb :: real
  o_length_in :: real
  o_width_in :: real
  o_height_in :: real
  o_price :: real
  o_eta_min :: int
  o_status :: OrderStatus
  o_created_at :: int

text \<open>
  The \<^verbatim>\<open>orders\<close> table, keyed by the primary key \<^verbatim>\<open>Order.id\<close>:
  \<^verbatim>\<open>db.query(Order).filter(Order.id == order_id).first()\<close> is the lookup \<open>db order_id\<close>.
\<close>

type_synonym orders_table = "int \<rightharpoonup> Order"

text \<open>
  Every \<^verbatim>\<open>raise HTTPException(status_code=...)\<close> of \<^verbatim>\<open>orders.py\<close> is a value:
  400 \<open>BadRequest\<close>, 403 \<open>Forbidden\<close>, 404 \<open>NotFound\<close>, 409 \<open>Conflict\<close>,
  422 \<open>InvalidInput\<close>.
\<close>

datatype http_error = BadRequest | Forbidden | NotFound | Conflict | InvalidInput

text \<open>
  \<^verbatim>\<open>OrderStatus(payload.status)\<close>: the enum member whose value is the string, and
  \<^verbatim>\<open>ValueError\<close> (here \<open>None\<close>) for any other string.
\<close>

definition OrderStatus_of_value :: "string \<Rightarrow> OrderStatus option" where
  "OrderStatus_of_value s =
     (if s = ''pending'' then Some pending
      else if s = ''assigned'' then Some assigned
      else if s = ''picked_up'' then Some picked_up
      else if s = ''delivered'' then Some delivered
      else if s = ''canceled'' then Some canceled
      else None)"

text \<open>\<^verbatim>\<open>ALLOWED_CHAIN\<close>, a dictionary from a status to the set of its successors.\<close>

fun ALLOWED_CHAIN :: "OrderStatus \<Rightarrow> OrderStatus set" where
  "ALLOWED_CHAIN pending = {assigned, canceled}"
| "ALLOWED_CHAIN assigned = {picked_up, canceled}"
| "ALLOWED_CHAIN picked_up = {delivered}"
| "ALLOWED_CHAIN delivered = {}"
| "ALLOWED_CHAIN canceled = {}"

definition can_transition :: "OrderStatus \<Rightarrow> OrderStatus \<Rightarrow> bool" where
  "can_transition current nxt = (nxt \<in> ALLOWED_CHAIN current)"

text \<open>
  \<^verbatim>\<open>update_order_status(order_id, payload, db, current_user)\<close>. The checks stand in
  the order of the source; on success the row's \<^verbatim>\<open>status\<close> is assigned, the
  session is committed, and the refreshed row is returned. The result is the returned
  row together with the table after the commit. The argument \<open>payload_status\<close> is
  \<^verbatim>\<open>payload.status\<close> as a string; the schema \<^verbatim>\<open>StatusUpdate\<close> admits the five
  status values only, and the handler checks the string again.
\<close>

definition update_order_status ::
  "int \<Rightarrow> string \<Rightarrow> orders_table \<Rightarrow> User \<Rightarrow> http_error + (Order \<times> orders_table)" where
  "update_order_status order_id payload_status db current_user =
     (case db order_id of
        None \<Rightarrow> Inl NotFound
      | Some order \<Rightarrow>
         (case OrderStatus_of_value payload_status of
            None \<Rightarrow> Inl InvalidInput
          | Some new_status \<Rightarrow>
             (let committed = Inr (order\<lparr>o_status := new_status\<rparr>,
                                   db(order_id \<mapsto> order\<lparr>o_status := new_status\<rparr>))
              in
              if u_role current_user = customer then
                (if o_user_id order \<noteq> u_id current_user then Inl Forbidden
                 else if new_status \<noteq> canceled then Inl Forbidden
                 else if o_status order \<notin> {pending, assigned} then Inl Conflict
                 else committed)
              else if u_role current_user \<in> {courier, admin} then
                (if new_status \<noteq> canceled \<and> \<not> can_transition (o_status order) new_status
                 then Inl Conflict
                 else committed)
              else Inl Forbidden)))"

section \<open>Geocode stub\<close>

text \<open>
  Source: \<^verbatim>\<open>fake_geocode\<close> in \<^verbatim>\<open>src/backend/orders.py\<close>.

  An address is a Python \<^verbatim>\<open>str\<close>: a sequence of Unicode code points, here the list
  of their ordinals (\<^verbatim>\<open>ord(c)\<close>).
\<close>

type_synonym ustr = "nat list"

text \<open>
  \<^verbatim>\<open>str.isspace\<close> on one character, the test \<^verbatim>\<open>str.strip()\<close> applies: the ASCII
  controls 9 to 13 and 28 to 31, the space, and the Unicode white space U+0085, U+00A0,
  U+1680, U+2000 to U+200A, U+2028, U+2029, U+202F, U+205F and U+3000.
\<close>

definition isspace :: "nat \<Rightarrow> bool" where
  "isspace c =
     ((9 \<le> c \<and> c \<le> 13) \<or> (28 \<le> c \<and> c \<le> 32) \<or> c = 133 \<or> c = 160 \<or> c = 5760 \<or>
      (8192 \<le> c \<and> c \<le> 8202) \<or> c = 8232 \<or> c = 8233 \<or> c = 8239 \<or> c = 8287 \<or>
      c = 12288)"

text \<open>\<^verbatim>\<open>addr.strip()\<close>: white space removed at both ends.\<close>

definition strip :: "ustr \<Rightarrow> ustr" where
  "strip s = rev (dropWhile isspace (rev (dropWhile isspace s)))"

text \<open>
  \<^verbatim>\<open>fake_geocode(addr)\<close>. The sum runs over the whole of \<^verbatim>\<open>addr\<close>, white space
  included, as in the source; \<open>None\<close> is Python's \<^verbatim>\<open>None\<close>.
\<close>

definition fake_geocode :: "ustr \<Rightarrow> (real \<times> real) option" where
  "fake_geocode addr =
     (if addr = [] \<or> strip addr = [] then None
      else
        (let total = sum_list addr
         in Some (30.0 + real (total mod 5000) / 100.0,
                  - 100.0 - real (total mod 5000) / 100.0)))"

section \<open>Tracking rooms\<close>

text \<open>
  Source: \<^verbatim>\<open>src/backend/tracking.py\<close> (\<^verbatim>\<open>ConnectionManager\<close> and the receive
  loop of \<^verbatim>\<open>ws_track\<close>).

  A web socket is a handle. The JSON payload is a record of its keys; the time stamp
  \<^verbatim>\<open>ts\<close> is left out. A room is a Python set of sockets; the list is the set in the
  order in which \<^verbatim>\<open>list(...)\<close> enumerates it, without repetitions.
\<close>

type_synonym WebSocket = nat

record payload =
  p_type :: string
  p_order_id :: string
  p_role :: string
  p_message :: string

text \<open>
  The state: \<^verbatim>\<open>manager.rooms\<close>, and the log of every \<^verbatim>\<open>send_text\<close> that
  returned, as pairs of the receiving socket and the payload, oldest first.
\<close>

record tracking_state =
  rooms :: "string \<rightharpoonup> WebSocket list"
  delivered_log :: "(WebSocket \<times> payload) list"

datatype send_error = SendFailed

text \<open>
  \<^verbatim>\<open>websocket.send_text(json.dumps(payload))\<close>: it raises on a socket for which
  \<open>dead\<close> holds, and delivers otherwise.
\<close>

definition send_text ::
  "(WebSocket \<Rightarrow> bool) \<Rightarrow> WebSocket \<Rightarrow> payload \<Rightarrow> tracking_state \<Rightarrow> send_error + tracking_state" where
  "send_text dead ws p st =
     (if dead ws then Inl SendFailed
      else Inr (st\<lparr>delivered_log := delivered_log st @ [(ws, p)]\<rparr>))"

text \<open>\<^verbatim>\<open>ConnectionManager.connect\<close>: \<^verbatim>\<open>rooms.setdefault(order_id, set()).add(websocket)\<close>.\<close>

definition connect :: "string \<Rightarrow> WebSocket \<Rightarrow> tracking_state \<Rightarrow> tracking_state" where
  "connect order_id websocket st =
     st\<lparr>rooms := (rooms st)(order_id \<mapsto>
        List.insert websocket (case rooms st order_id of None \<Rightarrow> [] | Some room \<Rightarrow> room))\<rparr>"

text \<open>\<^verbatim>\<open>ConnectionManager.disconnect\<close>.\<close>

definition disconnect :: "string \<Rightarrow> WebSocket \<Rightarrow> tracking_state \<Rightarrow> tracking_state" where
  "disconnect order_id websocket st =
     (case rooms st order_id of
        None \<Rightarrow> st
      | Some room \<Rightarrow>
          if room = [] then st
          else if removeAll websocket room = [] then st\<lparr>rooms := (rooms st)(order_id := None)\<rparr>
          else st\<lparr>rooms := (rooms st)(order_id \<mapsto> removeAll websocket room)\<rparr>)"

text \<open>\<^verbatim>\<open>ConnectionManager.send_personal\<close>.\<close>

definition send_personal ::
  "(WebSocket \<Rightarrow> bool) \<Rightarrow> WebSocket \<Rightarrow> payload \<Rightarrow> tracking_state \<Rightarrow> send_error + tracking_state" where
  "send_personal dead websocket p st = send_text dead websocket p st"

text \<open>
  \<^verbatim>\<open>ConnectionManager.broadcast\<close>: the loop over the snapshot
  \<^verbatim>\<open>list(self.rooms.get(order_id, []))\<close>; a failed send drops the socket and the
  loop goes on.
\<close>

fun broadcast_loop ::
  "(WebSocket \<Rightarrow> bool) \<Rightarrow> string \<Rightarrow> payload \<Rightarrow> WebSocket list \<Rightarrow> tracking_state \<Rightarrow> tracking_state" where
  "broadcast_loop dead order_id p [] st = st"
| "broadcast_loop dead order_id p (ws # wss) st =
     broadcast_loop dead order_id p wss
       (case send_text dead ws p st of
          Inr st' \<Rightarrow> st'
        | Inl e \<Rightarrow> disconnect order_id ws st)"

definition broadcast ::
  "(WebSocket \<Rightarrow> bool) \<Rightarrow> string \<Rightarrow> payload \<Rightarrow> tracking_state \<Rightarrow> tracking_state" where
  "broadcast dead order_id p st =
     broadcast_loop dead order_id p
       (case rooms st order_id of None \<Rightarrow> [] | Some room \<Rightarrow> room) st"

text \<open>
  One turn of the receive loop of \<^verbatim>\<open>ws_track\<close> (lines 72 to 83), for the text
  \<open>msg\<close> received from \<open>websocket\<close>: the echo to the sender, then the broadcast. An
  exception of the echo leaves the loop before the broadcast.
\<close>

definition ws_track_receive ::
  "(WebSocket \<Rightarrow> bool) \<Rightarrow> WebSocket \<Rightarrow> string \<Rightarrow> string \<Rightarrow> string \<Rightarrow> tracking_state
     \<Rightarrow> send_error + tracking_state" where
  "ws_track_receive dead websocket order_id role msg st =
     (let p = \<lparr>p_type = ''echo'', p_order_id = order_id, p_role = role, p_message = msg\<rparr>
      in case send_personal dead websocket p st of
           Inl e \<Rightarrow> Inl e
         | Inr st' \<Rightarrow> Inr (broadcast dead order_id (p\<lparr>p_type := ''broadcast''\<rparr>) st'))"

section \<open>Quote engine\<close>

text \<open>
  Source: \<^verbatim>\<open>src/backend/quote_engine.py\<close>. No route of the application imports this
  module; the mounted quote operation is \<^verbatim>\<open>compute_quote\<close> of \<^verbatim>\<open>orders.py\<close>,
  modelled in the next section.
\<close>

subsection \<open>Python numerics on the reals\<close>

text \<open>
  \<^verbatim>\<open>round(x, 2)\<close>: the nearest multiple of one hundredth, a tie going to the even
  one.
\<close>

definition round_half_even :: "real \<Rightarrow> int" where
  "round_half_even y =
     (let f = \<lfloor>y\<rfloor>; d = y - of_int f
      in if d < 1 / 2 then f
         else if 1 / 2 < d then f + 1
         else if even f then f else f + 1)"

definition round2 :: "real \<Rightarrow> real" where
  "round2 x = of_int (round_half_even (x * 100)) / 100"

text \<open>\<^verbatim>\<open>math.atan2(y, x)\<close>, the angle of the point \<open>(x, y)\<close> in \<open>(- pi, pi]\<close>.\<close>

definition atan2 :: "real \<Rightarrow> real \<Rightarrow> real" where
  "atan2 y x =
     (if 0 < x then arctan (y / x)
      else if x < 0 then (if 0 \<le> y then arctan (y / x) + pi else arctan (y / x) - pi)
      else if 0 < y then pi / 2
      else if y < 0 then - (pi / 2)
      else 0)"

text \<open>\<^verbatim>\<open>math.sqrt\<close> raises \<^verbatim>\<open>ValueError\<close> on a negative argument.\<close>

datatype math_error = ValueError

text \<open>\<^verbatim>\<open>d.get(k, default)\<close> on a dictionary written as its list of items.\<close>

definition dict_get :: "('k \<times> 'v) list \<Rightarrow> 'k \<Rightarrow> 'v \<Rightarrow> 'v" where
  "dict_get d k dflt = (case map_of d k of Some v \<Rightarrow> v | None \<Rightarrow> dflt)"

subsection \<open>Tables\<close>

record vehicle_entry =
  speed :: real
  mult :: real
  env :: real

definition VEHICLE :: "(string \<times> vehicle_entry) list" where
  "VEHICLE =
     [(''bike'',        \<lparr>speed = 12, mult = 0.90, env = - 0.35\<rparr>),
      (''cargo_bike'',  \<lparr>speed = 11, mult = 1.00, env = - 0.30\<rparr>),
      (''e_bike'',      \<lparr>speed = 14, mult = 0.95, env = - 0.30\<rparr>),
      (''scooter'',     \<lparr>speed = 18, mult = 0.95, env = 0.00\<rparr>),
      (''motorcycle'',  \<lparr>speed = 28, mult = 1.05, env = 0.00\<rparr>),
      (''car'',         \<lparr>speed = 24, mult = 1.00, env = 0.00\<rparr>),
      (''ev_compact'',  \<lparr>speed = 24, mult = 0.98, env = - 0.10\<rparr>),
      (''ev_sedan'',    \<lparr>speed = 24, mult = 1.02, env = - 0.10\<rparr>),
      (''suv'',         \<lparr>speed = 22, mult = 1.15, env = 0.00\<rparr>),
      (''ev_suv'',      \<lparr>speed = 22, mult = 1.12, env = - 0.08\<rparr>),
      (''van'',         \<lparr>speed = 21, mult = 1.22, env = 0.00\<rparr>),
      (''ev_van'',      \<lparr>speed = 21, mult = 1.20, env = - 0.06\<rparr>),
      (''truck_light'', \<lparr>speed = 20, mult = 1.35, env = 0.00\<rparr>),
      (''truck_box'',   \<lparr>speed = 19, mult = 1.50, env = 0.00\<rparr>)]"

text \<open>\<^verbatim>\<open>VEHICLE["car"]\<close>, the default of the vehicle lookup.\<close>

definition VEHICLE_car :: vehicle_entry where
  "VEHICLE_car = \<lparr>speed = 24, mult = 1.00, env = 0.00\<rparr>"

definition ITEM_MULT :: "(string \<times> real) list" where
  "ITEM_MULT = [(''general'', 1.0), (''electronics'', 1.2), (''fragile'', 1.25),
                (''perishable'', 1.15), (''oversize'', 1.4)]"

definition WEATHER :: "(string \<times> real) list" where
  "WEATHER = [(''clear'', 1.0), (''rain'', 1.08), (''snow'', 1.18), (''extreme'', 1.35)]"

definition TRAFFIC :: "(string \<times> real) list" where
  "TRAFFIC = [(''low'', 1.0), (''med'', 1.15), (''high'', 1.35)]"

definition SURGE :: real where
  "SURGE = 1.075"

subsection \<open>Helpers\<close>

text \<open>\<^verbatim>\<open>_clamp(n, a, b)\<close>.\<close>

definition clamp :: "real \<Rightarrow> real \<Rightarrow> real \<Rightarrow> real" where
  "clamp n a b = max a (min b n)"

text \<open>
  \<^verbatim>\<open>_haversine_km(lat1, lon1, lat2, lon2)\<close>. Each of the two \<^verbatim>\<open>math.sqrt\<close> calls
  raises when its argument is negative. In double arithmetic the sum \<open>a\<close> can exceed
  1 by a rounding error, at nearly antipodal points, and the second call then raises;
  exact arithmetic does not show this, so the properties below are stated for the inputs
  on which a result is returned and say nothing on when one is.
\<close>

definition haversine_km :: "real \<Rightarrow> real \<Rightarrow> real \<Rightarrow> real \<Rightarrow> math_error + real" where
  "haversine_km lat1 lon1 lat2 lon2 =
     (let R = 6371.0; to = pi / 180.0;
          dlat = (lat2 - lat1) * to; dlon = (lon2 - lon1) * to;
          a = (sin (dlat / 2))\<^sup>2 + cos (lat1 * to) * cos (lat2 * to) * (sin (dlon / 2))\<^sup>2
      in if a < 0 then Inl ValueError
         else if 1 - a < 0 then Inl ValueError
         else Inr (2 * R * atan2 (sqrt a) (sqrt (1 - a))))"

text \<open>\<^verbatim>\<open>_size_factor(L, W, H)\<close>; \<^verbatim>\<open>x ** 0.35\<close> on a positive base is \<open>x powr 0.35\<close>.\<close>

definition size_factor :: "real \<Rightarrow> real \<Rightarrow> real \<Rightarrow> real" where
  "size_factor L W H =
     (let base = 12 * 8 * 6; vol = max 1.0 (L * W * H)
      in clamp ((vol / base) powr 0.35) 0.75 2.0)"

text \<open>\<^verbatim>\<open>_weight_fee(lb)\<close>.\<close>

definition weight_fee :: "real \<Rightarrow> real" where
  "weight_fee lb = max 0.0 ((max 0.0 lb - 5.0) * 0.15)"

subsection \<open>The estimate\<close>

text \<open>
  The result dictionary of \<^verbatim>\<open>estimate_quote\<close> has the keys of the response model
  \<^verbatim>\<open>QuoteResponse\<close> of \<^verbatim>\<open>schemas.py\<close>, which \<^verbatim>\<open>compute_quote\<close> returns; one
  record serves both.
\<close>

record QuoteResponse =
  q_price :: real
  q_eta :: int
  q_miles :: real
  q_tier :: string

text \<open>
  Lines 50 to 66 of \<^verbatim>\<open>estimate_quote\<close>, as a function of the local variable
  \<^verbatim>\<open>miles\<close> and of the arguments read after line 48. The argument \<^verbatim>\<open>quantity\<close>
  is not read by the source.
\<close>

definition estimate_from_miles ::
  "real \<Rightarrow> string \<Rightarrow> string \<Rightarrow> real \<Rightarrow> real \<Rightarrow> real \<Rightarrow> real \<Rightarrow> string \<Rightarrow> string
     \<Rightarrow> QuoteResponse" where
  "estimate_from_miles mi vehicle item_type weight_lb length_in width_in height_in
       weather traffic =
     (let v = dict_get VEHICLE vehicle VEHICLE_car;
          base = 3.5 + mi * (1.45 * mult v);
          sizeF = size_factor length_in width_in height_in;
          itemM = dict_get ITEM_MULT item_type 1.0;
          wtFee = weight_fee weight_lb;
          access = 1.25;
          wx = dict_get WEATHER weather 1.0 * dict_get TRAFFIC traffic 1.15;
          subtotal = base * sizeF * itemM * wx * SURGE + wtFee + access + env v;
          pr = clamp (round2 subtotal) 4.5 999.0;
          eff = (speed v / wx) * 0.9;
          et = max 5 \<lceil>((if mi = 0 then 0 else mi) / max 3 eff) * 60 + 5\<rceil>;
          tr = (if pr < 12 then ''Saver''
                else if pr < 30 then ''Standard''
                else if pr < 80 then ''Priority''
                else ''Pro Load'')
      in \<lparr>q_price = pr, q_eta = et, q_miles = mi, q_tier = tr\<rparr>)"

text \<open>\<^verbatim>\<open>estimate_quote\<close>: lines 47 and 48, then the rest.\<close>

definition estimate_quote ::
  "real \<times> real \<Rightarrow> real \<times> real \<Rightarrow> string \<Rightarrow> string \<Rightarrow> int \<Rightarrow> real \<Rightarrow> real \<Rightarrow> real \<Rightarrow> real
     \<Rightarrow> string \<Rightarrow> string \<Rightarrow> math_error + QuoteResponse" where
  "estimate_quote pickup dropoff vehicle item_type quantity weight_lb length_in width_in
       height_in weather traffic =
     (case haversine_km (fst pickup) (snd pickup) (fst dropoff) (snd dropoff) of
        Inl e \<Rightarrow> Inl e
      | Inr km \<Rightarrow>
          Inr (estimate_from_miles (round2 (km * 0.621371 * 1.15)) vehicle item_type
                 weight_lb length_in width_in height_in weather traffic))"

subsection \<open>The algorithm of the specification\<close>







definition spec_tier :: "real \<Rightarrow> string" where
  "spec_tier p =
     (if p < 12 then ''Saver''
      else if p < 30 then ''Standard''
      else if p < 80 then ''Priority''
      else ''Pro Load'')"


section \<open>The mounted quote operation\<close>

text \<open>
  Source: \<^verbatim>\<open>haversine_like\<close>, \<^verbatim>\<open>vehicle_multiplier\<close>, \<^verbatim>\<open>item_tier\<close> and
  \<^verbatim>\<open>compute_quote\<close> in \<^verbatim>\<open>src/backend/orders.py\<close>; \<^verbatim>\<open>quote_price\<close>, the
  handler of \<^verbatim>\<open>POST /quote\<close>, returns \<^verbatim>\<open>compute_quote(payload)\<close>.
\<close>

definition haversine_like :: "real \<times> real \<Rightarrow> real \<times> real \<Rightarrow> real" where
  "haversine_like pu dr =
     (case (pu, dr) of
        ((a, b), (c, d)) \<Rightarrow> max 0.5 (sqrt ((a - c)\<^sup>2 + (b - d)\<^sup>2) * 69.0))"

definition vehicle_multiplier :: "string \<Rightarrow> real" where
  "vehicle_multiplier vehicle =
     dict_get [(''bike'', 1.0), (''car'', 1.2), (''van'', 1.5), (''truck'', 2.0)] vehicle 1.2"

text \<open>
  \<^verbatim>\<open>str.lower()\<close> on the strings of item types: the letters A to Z are lowered, every
  other character is kept.
\<close>

definition lower_char :: "char \<Rightarrow> char" where
  "lower_char c =
     dict_get (zip ''ABCDEFGHIJKLMNOPQRSTUVWXYZ'' ''abcdefghijklmnopqrstuvwxyz'') c c"

definition lower :: "string \<Rightarrow> string" where
  "lower s = map lower_char s"

text \<open>\<^verbatim>\<open>k in t\<close> on strings: \<open>k\<close> occurs in \<open>t\<close> as a contiguous substring.\<close>

fun str_in :: "string \<Rightarrow> string \<Rightarrow> bool" where
  "str_in k [] = (k = [])"
| "str_in k (c # t) = (take (length k) (c # t) = k \<or> str_in k t)"

definition item_tier :: "string \<Rightarrow> string" where
  "item_tier item_type =
     (let t = lower item_type
      in if list_ex (\<lambda>k. str_in k t) [''fragile'', ''glass'', ''art''] then ''fragile''
         else if list_ex (\<lambda>k. str_in k t) [''food'', ''meal'', ''grocery''] then ''perishable''
         else if list_ex (\<lambda>k. str_in k t) [''electronics'', ''laptop'', ''tv''] then ''electronics''
         else ''standard'')"

text \<open>
  The request object read by \<^verbatim>\<open>compute_quote\<close>. The source probes the object with
  \<^verbatim>\<open>hasattr\<close>: an attribute the object does not have is \<open>None\<close>. The schema
  \<^verbatim>\<open>QuoteRequest\<close> has the four coordinates and no address; the objects built by
  \<^verbatim>\<open>quote_estimate\<close> and \<^verbatim>\<open>create_order_compat\<close> have the two addresses and no
  coordinate.
\<close>

record QuoteRequest =
  r_pickup_addr :: "ustr option"
  r_dropoff_addr :: "ustr option"
  r_pickup_lat :: "real option"
  r_pickup_lng :: "real option"
  r_dropoff_lat :: "real option"
  r_dropoff_lng :: "real option"
  r_vehicle :: string
  r_item_type :: "string option"
  r_quantity :: int
  r_weight_lb :: real
  r_length_in :: real
  r_width_in :: real
  r_height_in :: real
  r_weather :: string
  r_traffic :: string

text \<open>\<^verbatim>\<open>int(x)\<close> on a float: truncation towards zero.\<close>

definition py_int :: "real \<Rightarrow> int" where
  "py_int x = (if 0 \<le> x then \<lfloor>x\<rfloor> else \<lceil>x\<rceil>)"

text \<open>\<^verbatim>\<open>x or d\<close> on numbers: \<open>d\<close> when \<open>x\<close> is zero.\<close>

definition or_else :: "'a::zero \<Rightarrow> 'a \<Rightarrow> 'a" where
  "or_else x d = (if x = 0 then d else x)"

text \<open>Lines 57 to 63 of \<^verbatim>\<open>compute_quote\<close>: the two points, or the 400 error.\<close>

definition resolve_points :: "QuoteRequest \<Rightarrow> http_error + ((real \<times> real) \<times> (real \<times> real))" where
  "resolve_points data =
     (let pu0 = (case r_pickup_addr data of Some a \<Rightarrow> fake_geocode a | None \<Rightarrow> None);
          do0 = (case r_dropoff_addr data of Some a \<Rightarrow> fake_geocode a | None \<Rightarrow> None);
          both =
            (case (pu0, r_pickup_lat data, r_pickup_lng data,
                   r_dropoff_lat data, r_dropoff_lng data) of
               (None, Some a, Some b, Some c, Some d) \<Rightarrow> (Some (a, b), Some (c, d))
             | _ \<Rightarrow> (pu0, do0))
      in case both of
           (Some pu, Some dr) \<Rightarrow> Inr (pu, dr)
         | _ \<Rightarrow> Inl BadRequest)"

text \<open>
  The local variables \<^verbatim>\<open>per_mile\<close>, \<^verbatim>\<open>qty_factor\<close>, \<^verbatim>\<open>weight_factor\<close> and
  \<^verbatim>\<open>size_factor\<close> of \<^verbatim>\<open>compute_quote\<close> (lines 67 to 73), each a function of the
  request.
\<close>

definition per_mile :: "QuoteRequest \<Rightarrow> real" where
  "per_mile data = 1.75 * vehicle_multiplier (r_vehicle data)"

definition qty_factor :: "QuoteRequest \<Rightarrow> real" where
  "qty_factor data = max 1.0 (real_of_int (or_else (r_quantity data) 1) * 0.9)"

definition weight_factor :: "QuoteRequest \<Rightarrow> real" where
  "weight_factor data = 1.0 + min 0.8 (or_else (r_weight_lb data) 0.0 / 100.0)"

definition size_factor_q :: "QuoteRequest \<Rightarrow> real" where
  "size_factor_q data =
     1.0 + min 0.6
       ((or_else (r_length_in data) 12 * or_else (r_width_in data) 8 *
         or_else (r_height_in data) 6) / 1728.0 * 0.2)"

text \<open>\<^verbatim>\<open>compute_quote(data)\<close>.\<close>

definition compute_quote :: "QuoteRequest \<Rightarrow> http_error + QuoteResponse" where
  "compute_quote data =
     (case resolve_points data of
        Inl e \<Rightarrow> Inl e
      | Inr (pu, dr) \<Rightarrow>
          (let mi = haversine_like pu dr;
               base = 3.5;
               pr = round2 ((base + mi * per_mile data) * qty_factor data *
                            weight_factor data * size_factor_q data);
               et = max 10 (py_int (mi * 3))
           in Inr \<lparr>q_price = pr, q_eta = et, q_miles = round2 mi,
                   q_tier = item_tier (case r_item_type data of Some s \<Rightarrow> s | None \<Rightarrow> [])\<rparr>))"

text \<open>A delivered order of user 3, used as a concrete input below.\<close>

definition example_order :: Order where
  "example_order = \<lparr>o_id = 7, o_user_id = 3, o_pickup_lat = 0, o_pickup_lng = 0,
     o_dropoff_lat = 0, o_dropoff_lng = 0, o_vehicle = ''car'', o_item_type = ''general'',
     o_quantity = 1, o_weight_lb = 0, o_length_in = 12, o_width_in = 8, o_height_in = 6,
     o_price = 5, o_eta_min = 10, o_status = delivered, o_created_at = 0\<rparr>"

text \<open>
  A request as the schema \<^verbatim>\<open>QuoteRequest\<close> gives it: pickup and dropoff at the same
  point, a bike, the default box of 12 by 8 by 6 inches.
\<close>

definition example_request :: QuoteRequest where
  "example_request = \<lparr>r_pickup_addr = None, r_dropoff_addr = None,
     r_pickup_lat = Some 0, r_pickup_lng = Some 0, r_dropoff_lat = Some 0, r_dropoff_lng = Some 0,
     r_vehicle = ''bike'', r_item_type = Some ''general'', r_quantity = 1, r_weight_lb = 0,
     r_length_in = 12, r_width_in = 8, r_height_in = 6, r_weather = ''clear'', r_traffic = ''med''\<rparr>"

section \<open>Properties of the order status state machine\<close>

subsection \<open>Outcome of a status update\<close>

lemma OrderStatus_of_value_None:
  "OrderStatus_of_value s = None \<longleftrightarrow>
     s \<notin> {''pending'', ''assigned'', ''picked_up'', ''delivered'', ''canceled''}"
  by (simp add: OrderStatus_of_value_def)

text \<open>
  C5. The outcome of \<^verbatim>\<open>update_order_status\<close> for every table, order id, requested
  status string and actor: \<open>NotFound\<close> when the id is not in the table; otherwise
  \<open>InvalidInput\<close> when the string is none of the five status values; otherwise, for a
  customer, \<open>Forbidden\<close> exactly when the order is not their own or the target is not
  canceled, and \<open>Conflict\<close> exactly when it is their own, the target is canceled and the
  current status is neither pending nor assigned; for a courier or admin, \<open>Conflict\<close>
  exactly when the target is not canceled and is not in the table's row of the current
  status; for a merchant, \<open>Forbidden\<close>. In the remaining cases the update succeeds.
\<close>

theorem update_order_status_outcome:
  fixes db :: orders_table and order_id :: int and s :: string and u :: User
  defines "r \<equiv> update_order_status order_id s db u"
  shows
  "(db order_id = None \<longrightarrow> r = Inl NotFound) \<and>
   (\<forall>order. db order_id = Some order \<longrightarrow>
      (s \<notin> {''pending'', ''assigned'', ''picked_up'', ''delivered'', ''canceled''}
         \<longrightarrow> r = Inl InvalidInput) \<and>
      (\<forall>new_status. OrderStatus_of_value s = Some new_status \<longrightarrow>
         (u_role u = customer \<longrightarrow>
            (r = Inl Forbidden \<longleftrightarrow>
               \<not> (o_user_id order = u_id u \<and> new_status = canceled)) \<and>
            (r = Inl Conflict \<longleftrightarrow>
               o_user_id order = u_id u \<and> new_status = canceled \<and>
               o_status order \<notin> {pending, assigned}) \<and>
            (o_user_id order = u_id u \<and> new_status = canceled \<and>
             o_status order \<in> {pending, assigned} \<longrightarrow>
               r = Inr (order\<lparr>o_status := canceled\<rparr>,
                        db(order_id \<mapsto> order\<lparr>o_status := canceled\<rparr>)))) \<and>
         (u_role u = courier \<or> u_role u = admin \<longrightarrow>
            (r = Inl Conflict \<longleftrightarrow>
               new_status \<noteq> canceled \<and> new_status \<notin> ALLOWED_CHAIN (o_status order)) \<and>
            (new_status = canceled \<or> new_status \<in> ALLOWED_CHAIN (o_status order) \<longrightarrow>
               r = Inr (order\<lparr>o_status := new_status\<rparr>,
                        db(order_id \<mapsto> order\<lparr>o_status := new_status\<rparr>)))) \<and>
         (u_role u = merchant \<longrightarrow> r = Inl Forbidden)))"
proof -
  have nf: "db order_id = None \<Longrightarrow> r = Inl NotFound"
    by (simp add: r_def update_order_status_def)
  have inv: "r = Inl InvalidInput"
    if "db order_id = Some order"
       "s \<notin> {''pending'', ''assigned'', ''picked_up'', ''delivered'', ''canceled''}"
    for order
    using that OrderStatus_of_value_None [of s]
    by (simp add: r_def update_order_status_def)
  show ?thesis
    apply (intro conjI allI impI)
    subgoal by (rule nf)
    subgoal by (rule inv)
    by (auto simp: r_def update_order_status_def can_transition_def Let_def)
qed

theorem update_order_status_outcome_witness:
  "[7 \<mapsto> example_order\<lparr>o_status := assigned\<rparr>] 7 = Some (example_order\<lparr>o_status := assigned\<rparr>) \<and>
   OrderStatus_of_value ''picked_up'' = Some picked_up \<and>
   picked_up \<in> ALLOWED_CHAIN assigned \<and>
   update_order_status 7 ''picked_up'' [7 \<mapsto> example_order\<lparr>o_status := assigned\<rparr>]
       \<lparr>u_id = 9, u_role = courier\<rparr>
     = Inr (example_order\<lparr>o_status := picked_up\<rparr>,
            [7 \<mapsto> example_order\<lparr>o_status := picked_up\<rparr>])"
  using update_order_status_outcome
    [of "[7 \<mapsto> example_order\<lparr>o_status := assigned\<rparr>]" 7 "''picked_up''"
        "\<lparr>u_id = 9, u_role = courier\<rparr>"]
  by (simp add: OrderStatus_of_value_def)

subsection \<open>Frame of a status update\<close>

text \<open>
  C9. A successful status update returns the stored order with only its status field
  assigned: owner, pickup and dropoff coordinates, vehicle, item type, quantity, weight,
  dimensions, creation time, price and ETA are those of the stored order, and the table
  after the commit differs from the table before only at this order id.
\<close>

theorem update_order_status_frame:
  assumes "update_order_status order_id s db u = Inr (order', db')"
  shows "\<exists>order. db order_id = Some order \<and>
           order' = order\<lparr>o_status := o_status order'\<rparr> \<and>
           db' = db(order_id \<mapsto> order') \<and>
           o_id order' = o_id order \<and> o_user_id order' = o_user_id order \<and>
           o_pickup_lat order' = o_pickup_lat order \<and> o_pickup_lng order' = o_pickup_lng order \<and>
           o_dropoff_lat order' = o_dropoff_lat order \<and>
           o_dropoff_lng order' = o_dropoff_lng order \<and>
           o_vehicle order' = o_vehicle order \<and> o_item_type order' = o_item_type order \<and>
           o_quantity order' = o_quantity order \<and> o_weight_lb order' = o_weight_lb order \<and>
           o_length_in order' = o_length_in order \<and> o_width_in order' = o_width_in order \<and>
           o_height_in order' = o_height_in order \<and> o_price order' = o_price order \<and>
           o_eta_min order' = o_eta_min order \<and> o_created_at order' = o_created_at order"
  using assms
  by (auto simp: update_order_status_def Let_def split: option.splits if_splits)

theorem update_order_status_frame_witness:
  "update_order_status 7 ''canceled'' [7 \<mapsto> example_order\<lparr>o_status := pending\<rparr>]
       \<lparr>u_id = 3, u_role = customer\<rparr>
     = Inr (example_order\<lparr>o_status := canceled\<rparr>,
            [7 \<mapsto> example_order\<lparr>o_status := canceled\<rparr>]) \<and>
   (\<exists>order. [7 \<mapsto> example_order\<lparr>o_status := pending\<rparr>] (7::int) = Some order \<and>
      o_price (example_order\<lparr>o_status := canceled\<rparr>) = o_price order \<and>
      o_eta_min (example_order\<lparr>o_status := canceled\<rparr>) = o_eta_min order)"
proof -
  have run: "update_order_status 7 ''canceled'' [7 \<mapsto> example_order\<lparr>o_status := pending\<rparr>]
       \<lparr>u_id = 3, u_role = customer\<rparr>
     = Inr (example_order\<lparr>o_status := canceled\<rparr>,
            [7 \<mapsto> example_order\<lparr>o_status := canceled\<rparr>])"
    by (simp add: update_order_status_def OrderStatus_of_value_def example_order_def)
  from update_order_status_frame [OF run] run show ?thesis
    by blast
qed

subsection \<open>Terminal states\<close>

text \<open>
  C2, as stated, fails: the courier and admin branch skips the table check when the
  requested status is canceled, so an admin's request moves a delivered order to
  canceled.
\<close>

theorem terminal_status_counterexample:
  "o_status example_order = delivered \<and>
   update_order_status 7 ''canceled'' [7 \<mapsto> example_order] \<lparr>u_id = 1, u_role = admin\<rparr>
     = Inr (example_order\<lparr>o_status := canceled\<rparr>,
            [7 \<mapsto> example_order\<lparr>o_status := canceled\<rparr>])"
  by (simp add: update_order_status_def OrderStatus_of_value_def example_order_def)

text \<open>
  C2, amended. For an order whose status is delivered or canceled: every update attempt
  by a customer or a merchant is rejected; an attempt by a courier or an admin is
  rejected exactly when the requested status is not canceled; every successful update
  leaves the order canceled. Hence a canceled order never changes status again, and a
  delivered order can only become canceled.
\<close>

theorem terminal_status_updates:
  fixes db :: orders_table and order_id :: int and s :: string and u :: User
  assumes "db order_id = Some order"
    and "o_status order = delivered \<or> o_status order = canceled"
  defines "r \<equiv> update_order_status order_id s db u"
  shows "(u_role u = customer \<or> u_role u = merchant \<longrightarrow> isl r) \<and>
         (u_role u = courier \<or> u_role u = admin \<longrightarrow>
            (isl r \<longleftrightarrow> OrderStatus_of_value s \<noteq> Some canceled)) \<and>
         (\<forall>order' db'. r = Inr (order', db') \<longrightarrow>
            o_status order' = canceled \<and> (u_role u = courier \<or> u_role u = admin))"
  using assms(1,2) unfolding r_def
  by (cases "u_role u")
     (auto simp: update_order_status_def can_transition_def Let_def split: option.splits)

theorem terminal_status_updates_witness:
  "[7 \<mapsto> example_order] 7 = Some example_order \<and>
   o_status example_order = delivered \<and>
   isl (update_order_status 7 ''canceled'' [7 \<mapsto> example_order] \<lparr>u_id = 3, u_role = customer\<rparr>) \<and>
   isl (update_order_status 7 ''pending'' [7 \<mapsto> example_order] \<lparr>u_id = 1, u_role = admin\<rparr>)"
proof -
  have h1: "[7 \<mapsto> example_order] (7::int) = Some example_order" by simp
  have h2: "o_status example_order = delivered \<or> o_status example_order = canceled"
    by (simp add: example_order_def)
  have v: "OrderStatus_of_value ''pending'' \<noteq> Some canceled"
    by (simp add: OrderStatus_of_value_def)
  note t = terminal_status_updates
    [where db = "[7 \<mapsto> example_order]" and order_id = 7 and order = example_order, OF h1 h2]
  from t [where s = "''canceled''" and u = "\<lparr>u_id = 3, u_role = customer\<rparr>"]
       t [where s = "''pending''" and u = "\<lparr>u_id = 1, u_role = admin\<rparr>"] v
  show ?thesis
    by (simp add: example_order_def)
qed

section \<open>Properties of the geocode stub\<close>

lemma dropWhile_all_iff: "(\<forall>x \<in> set (dropWhile P xs). P x) \<longleftrightarrow> (\<forall>x \<in> set xs. P x)"
  by (induction xs) auto

lemma strip_empty_iff: "strip s = [] \<longleftrightarrow> (\<forall>c \<in> set s. isspace c)"
  by (simp add: strip_def dropWhile_eq_Nil_conv dropWhile_all_iff)

text \<open>
  C8, as stated, fails on the longitude band: the code computes
  \<open>- 100 - (total mod 5000) / 100\<close>, so a sum that is a multiple of 5000 gives the
  longitude \<open>- 100\<close> itself, outside \<open>[- 150, - 100)\<close>. Fifty letters \<^verbatim>\<open>d\<close>
  (ordinal 100) are such an address.
\<close>

theorem fake_geocode_band_counterexample:
  "fake_geocode (replicate 50 100) = Some (30, - 100) \<and>
   \<not> (- 150 \<le> (- 100 :: real) \<and> (- 100 :: real) < - 100)"
  by (simp add: fake_geocode_def strip_empty_iff isspace_def Let_def sum_list_replicate)

text \<open>
  C8, amended. \<^verbatim>\<open>fake_geocode\<close> returns \<open>None\<close> exactly when the address is empty
  or consists of white space only; for every other address it returns a point whose
  latitude lies in \<open>[30, 80)\<close> and whose longitude lies in \<open>(- 150, - 100]\<close>. Being a
  function of the address, it gives equal points for equal strings.
\<close>

theorem fake_geocode_result:
  "(fake_geocode addr = None \<longleftrightarrow> addr = [] \<or> (\<forall>c \<in> set addr. isspace c)) \<and>
   (\<forall>lat lng. fake_geocode addr = Some (lat, lng) \<longrightarrow>
      30 \<le> lat \<and> lat < 80 \<and> - 150 < lng \<and> lng \<le> - 100)"
proof -
  have m: "real (sum_list addr mod 5000) < 5000"
    by simp
  have n: "0 \<le> real (sum_list addr mod 5000)"
    by simp
  show ?thesis
    using m n by (auto simp: fake_geocode_def strip_empty_iff Let_def)
qed

theorem fake_geocode_result_witness:
  "fake_geocode [49, 32, 77, 97, 105, 110] = Some (30 + 470 / 100, - 100 - 470 / 100) \<and>
   30 \<le> (30 + 470 / 100 :: real) \<and> (30 + 470 / 100 :: real) < 80 \<and>
   - 150 < (- 100 - 470 / 100 :: real) \<and> (- 100 - 470 / 100 :: real) \<le> - 100 \<and>
   fake_geocode [32, 9, 32] = None"
  using fake_geocode_result [of "[49, 32, 77, 97, 105, 110]"]
        fake_geocode_result [of "[32, 9, 32]"]
  by (simp add: fake_geocode_def strip_def isspace_def Let_def)

section \<open>Properties of the tracking rooms\<close>

text \<open>When no send fails, the broadcast loop logs one delivery per socket of the snapshot.\<close>

lemma broadcast_loop_alive:
  "\<forall>ws \<in> set wss. \<not> dead ws \<Longrightarrow>
   broadcast_loop dead order_id p wss st =
     st\<lparr>delivered_log := delivered_log st @ map (\<lambda>ws. (ws, p)) wss\<rparr>"
  by (induction wss arbitrary: st) (simp_all add: send_text_def)

text \<open>
  Hence one turn of the receive loop, in a room whose sockets are all alive, delivers
  the echo to the sender and the broadcast to every socket of the room; the room
  contains the sender, who joined it on connecting.
\<close>

lemma ws_track_receive_alive:
  assumes "rooms st order_id = Some room" and "\<forall>ws \<in> set room. \<not> dead ws"
    and "\<not> dead websocket"
  shows "ws_track_receive dead websocket order_id role msg st =
     Inr (st\<lparr>delivered_log := delivered_log st @
            (websocket, \<lparr>p_type = ''echo'', p_order_id = order_id, p_role = role,
                          p_message = msg\<rparr>) #
            map (\<lambda>ws. (ws, \<lparr>p_type = ''broadcast'', p_order_id = order_id, p_role = role,
                                p_message = msg\<rparr>)) room\<rparr>)"
  using assms
  by (simp add: ws_track_receive_def send_personal_def send_text_def broadcast_def
        broadcast_loop_alive)

text \<open>
  C6. The code does not do what the claim (and the comment above the call, "Broadcast
  to everyone else in the room") says: \<^verbatim>\<open>broadcast\<close> has no excluded socket and
  sends to every member of the room, the sender included. With sockets 1 and 2 in the
  room of order 42 and a message from socket 1, socket 1 receives the echo and the
  broadcast, socket 2 the broadcast.
\<close>

theorem ws_track_sender_receives_broadcast:
  "ws_track_receive (\<lambda>ws. False) 1 ''42'' ''client'' ''hi''
     \<lparr>rooms = [''42'' \<mapsto> [1, 2]], delivered_log = []\<rparr>
   = Inr \<lparr>rooms = [''42'' \<mapsto> [1, 2]],
          delivered_log =
            [(1, \<lparr>p_type = ''echo'', p_order_id = ''42'', p_role = ''client'', p_message = ''hi''\<rparr>),
             (1, \<lparr>p_type = ''broadcast'', p_order_id = ''42'', p_role = ''client'', p_message = ''hi''\<rparr>),
             (2, \<lparr>p_type = ''broadcast'', p_order_id = ''42'', p_role = ''client'', p_message = ''hi''\<rparr>)]\<rparr>"
  by (simp add: ws_track_receive_def send_personal_def send_text_def broadcast_def)

section \<open>Properties of the numeric helpers and tables\<close>

lemma round_half_even_bounds:
  "\<lfloor>y\<rfloor> \<le> round_half_even y \<and> round_half_even y \<le> \<lfloor>y\<rfloor> + 1"
  by (simp add: round_half_even_def Let_def)

lemma round_half_even_of_int [simp]: "round_half_even (of_int k) = k"
  by (simp add: round_half_even_def)

lemma round_half_even_mono:
  assumes "x \<le> y"
  shows "round_half_even x \<le> round_half_even y"
proof (cases "\<lfloor>x\<rfloor> = \<lfloor>y\<rfloor>")
  case True
  with assms show ?thesis
    by (auto simp: round_half_even_def Let_def)
next
  case False
  with assms have "\<lfloor>x\<rfloor> < \<lfloor>y\<rfloor>"
    using floor_mono [of x y] by linarith
  with round_half_even_bounds [of x] round_half_even_bounds [of y] show ?thesis
    by linarith
qed

lemma round2_mono: "x \<le> y \<Longrightarrow> round2 x \<le> round2 y"
  by (simp add: round2_def round_half_even_mono divide_right_mono)






lemma round2_gap: "round2 a < round2 b \<Longrightarrow> round2 a + 1 / 100 \<le> round2 b"
proof -
  assume "round2 a < round2 b"
  then have "round_half_even (a * 100) < round_half_even (b * 100)"
    by (simp add: round2_def divide_less_cancel)
  then have "round_half_even (a * 100) + 1 \<le> round_half_even (b * 100)"
    by simp
  then have "real_of_int (round_half_even (a * 100) + 1) \<le> real_of_int (round_half_even (b * 100))"
    by (simp only: of_int_le_iff)
  then show ?thesis
    by (simp add: round2_def field_simps)
qed

lemma VEHICLE_car_entry: "map_of VEHICLE ''car'' = Some VEHICLE_car"
  by (simp add: VEHICLE_def VEHICLE_car_def)













section \<open>Properties of the quote operations\<close>

subsection \<open>The quote engine and the algorithm of the specification\<close>


lemma haversine_km_same_point: "haversine_km 0 0 0 0 = Inr 0"
  by (simp add: haversine_km_def atan2_def)

lemma compute_quote_example:
  "compute_quote example_request
     = Inr \<lparr>q_price = 4.67, q_eta = 10, q_miles = 0.5, q_tier = ''standard''\<rparr>"
  by (simp add: compute_quote_def resolve_points_def example_request_def haversine_like_def
        per_mile_def qty_factor_def weight_factor_def size_factor_q_def vehicle_multiplier_def
        dict_get_def or_else_def py_int_def round2_def round_half_even_def item_tier_def
        lower_def lower_char_def)

lemma estimate_quote_example:
  "estimate_quote (0, 0) (0, 0) ''bike'' ''general'' 1 0 12 8 6 ''clear'' ''med''
     = Inr \<lparr>q_price = 5.23, q_eta = 5, q_miles = 0, q_tier = ''Saver''\<rparr>"
  by (simp add: estimate_quote_def haversine_km_same_point estimate_from_miles_def
        size_factor_def clamp_def dict_get_def VEHICLE_def VEHICLE_car_def ITEM_MULT_def
        WEATHER_def TRAFFIC_def SURGE_def weight_fee_def round2_def round_half_even_def)








subsection \<open>Bounds on price and ETA\<close>

lemma estimate_from_miles_price_bounds:
  "4.5 \<le> q_price (estimate_from_miles mi v i w L W H wx tr) \<and>
   q_price (estimate_from_miles mi v i w L W H wx tr) \<le> 999.0"
  by (simp add: estimate_from_miles_def Let_def clamp_def)

lemma estimate_from_miles_eta_bound:
  "5 \<le> q_eta (estimate_from_miles mi v i w L W H wx tr)"
  by (simp add: estimate_from_miles_def Let_def)

lemma compute_quote_eta:
  "compute_quote data = Inr q \<Longrightarrow> 10 \<le> q_eta q"
  by (auto simp: compute_quote_def Let_def split: sum.splits prod.splits)

lemma compute_quote_small_box:
  "compute_quote (example_request\<lparr>r_length_in := 1, r_width_in := 1, r_height_in := 1\<rparr>)
     = Inr \<lparr>q_price = 4.38, q_eta = 10, q_miles = 0.5, q_tier = ''standard''\<rparr>"
  by (simp add: compute_quote_def resolve_points_def example_request_def haversine_like_def
        per_mile_def qty_factor_def weight_factor_def size_factor_q_def vehicle_multiplier_def
        dict_get_def or_else_def py_int_def round2_def round_half_even_def item_tier_def
        lower_def lower_char_def)

text \<open>
  C3, as stated, fails on the price: \<^verbatim>\<open>compute_quote\<close>, the operation mounted at
  \<^verbatim>\<open>POST /quote\<close>, has no clamp. A bike request with pickup and dropoff at the same
  point and a box of 1 by 1 by 1 inch is priced 4.38, below 4.5.
\<close>

theorem mounted_quote_price_counterexample:
  "compute_quote (example_request\<lparr>r_length_in := 1, r_width_in := 1, r_height_in := 1\<rparr>)
     = Inr \<lparr>q_price = 4.38, q_eta = 10, q_miles = 0.5, q_tier = ''standard''\<rparr> \<and>
   \<not> (4.5 \<le> (4.38 :: real) \<and> (4.38 :: real) \<le> 999.0)"
  by (simp add: compute_quote_small_box)

text \<open>
  C3, amended. Whenever \<^verbatim>\<open>estimate_quote\<close> of the quote engine returns a result,
  its price lies in \<open>[4.5, 999]\<close> and its ETA is at least 5 minutes. Whenever the
  mounted operation \<^verbatim>\<open>compute_quote\<close> returns a result, its ETA is at least 5
  minutes (its floor is 10); its price is not clamped.
\<close>

theorem quote_bounds:
  "(\<forall>q. estimate_quote pickup dropoff vehicle item_type quantity weight_lb length_in
            width_in height_in weather traffic = Inr q \<longrightarrow>
         4.5 \<le> q_price q \<and> q_price q \<le> 999.0 \<and> 5 \<le> q_eta q) \<and>
   (\<forall>q. compute_quote data = Inr q \<longrightarrow> 5 \<le> q_eta q)"
proof (intro conjI allI impI)
  fix q
  assume "compute_quote data = Inr q"
  then show "5 \<le> q_eta q"
    using compute_quote_eta [of data q] by simp
next
  fix q
  assume "estimate_quote pickup dropoff vehicle item_type quantity weight_lb length_in
            width_in height_in weather traffic = Inr q"
  then obtain mi where q: "q = estimate_from_miles mi vehicle item_type weight_lb length_in
      width_in height_in weather traffic"
    unfolding estimate_quote_def by (auto simp only: split: sum.splits)
  show "4.5 \<le> q_price q" "q_price q \<le> 999.0" "5 \<le> q_eta q"
    unfolding q
    using estimate_from_miles_price_bounds estimate_from_miles_eta_bound by blast+
qed

theorem quote_bounds_witness:
  "estimate_quote (0, 0) (0, 0) ''bike'' ''general'' 1 0 12 8 6 ''clear'' ''med''
     = Inr \<lparr>q_price = 5.23, q_eta = 5, q_miles = 0, q_tier = ''Saver''\<rparr> \<and>
   4.5 \<le> q_price \<lparr>q_price = 5.23, q_eta = 5, q_miles = 0, q_tier = ''Saver''\<rparr> \<and>
   q_price \<lparr>q_price = 5.23, q_eta = 5, q_miles = 0, q_tier = ''Saver''\<rparr> \<le> 999.0 \<and>
   5 \<le> q_eta \<lparr>q_price = 5.23, q_eta = 5, q_miles = 0, q_tier = ''Saver''\<rparr> \<and>
   compute_quote example_request
     = Inr \<lparr>q_price = 4.67, q_eta = 10, q_miles = 0.5, q_tier = ''standard''\<rparr> \<and>
   5 \<le> q_eta \<lparr>q_price = 4.67, q_eta = 10, q_miles = 0.5, q_tier = ''standard''\<rparr>"
  using quote_bounds
    [of "(0, 0)" "(0, 0)" "''bike''" "''general''" 1 0 12 8 6 "''clear''" "''med''"
        example_request]
    estimate_quote_example compute_quote_example
  by blast

subsection \<open>The tier\<close>

lemma estimate_from_miles_tier:
  "q_tier (estimate_from_miles mi v i w L W H wx tr)
     = spec_tier (q_price (estimate_from_miles mi v i w L W H wx tr))"
  by (simp add: estimate_from_miles_def Let_def spec_tier_def)

lemma spec_tier_thresholds:
  "(spec_tier p = ''Saver'' \<longleftrightarrow> p < 12) \<and>
   (spec_tier p = ''Standard'' \<longleftrightarrow> 12 \<le> p \<and> p < 30) \<and>
   (spec_tier p = ''Priority'' \<longleftrightarrow> 30 \<le> p \<and> p < 80) \<and>
   (spec_tier p = ''Pro Load'' \<longleftrightarrow> 80 \<le> p)"
  by (simp add: spec_tier_def)

lemma item_tier_range:
  "item_tier s \<in> {''fragile'', ''perishable'', ''electronics'', ''standard''}"
  by (simp add: item_tier_def Let_def)

text \<open>
  C4, as stated, fails: the tier returned by \<^verbatim>\<open>compute_quote\<close>, the operation
  mounted at \<^verbatim>\<open>POST /quote\<close>, is \<^verbatim>\<open>item_tier(item_type)\<close> and does not depend
  on the price. The bike request priced 4.67, below 12, has the tier \<^verbatim>\<open>standard\<close>,
  not \<^verbatim>\<open>Saver\<close>.
\<close>

theorem mounted_quote_tier_counterexample:
  "compute_quote example_request
     = Inr \<lparr>q_price = 4.67, q_eta = 10, q_miles = 0.5, q_tier = ''standard''\<rparr> \<and>
   (4.67 :: real) < 12 \<and> ''standard'' \<noteq> ''Saver''"
  by (simp add: compute_quote_example)

text \<open>
  C4, amended. For every result of \<^verbatim>\<open>estimate_quote\<close> of the quote engine the tier
  is determined by the final price alone: Saver exactly when the price is below 12,
  Standard exactly when it is in \<open>[12, 30)\<close>, Priority exactly when it is in
  \<open>[30, 80)\<close>, and Pro Load exactly when it is at least 80. The tier of a result of the
  mounted operation \<^verbatim>\<open>compute_quote\<close> is \<^verbatim>\<open>item_tier(item_type)\<close>, one of
  fragile, perishable, electronics and standard.
\<close>

theorem quote_tier:
  "(\<forall>q. estimate_quote pickup dropoff vehicle item_type quantity weight_lb length_in
            width_in height_in weather traffic = Inr q \<longrightarrow>
      (q_tier q = ''Saver'' \<longleftrightarrow> q_price q < 12) \<and>
      (q_tier q = ''Standard'' \<longleftrightarrow> 12 \<le> q_price q \<and> q_price q < 30) \<and>
      (q_tier q = ''Priority'' \<longleftrightarrow> 30 \<le> q_price q \<and> q_price q < 80) \<and>
      (q_tier q = ''Pro Load'' \<longleftrightarrow> 80 \<le> q_price q)) \<and>
   (\<forall>q. compute_quote data = Inr q \<longrightarrow>
      q_tier q = item_tier (case r_item_type data of Some s \<Rightarrow> s | None \<Rightarrow> []) \<and>
      q_tier q \<in> {''fragile'', ''perishable'', ''electronics'', ''standard''})"
proof (intro conjI allI impI)
  fix q
  assume "compute_quote data = Inr q"
  then show t: "q_tier q = item_tier (case r_item_type data of Some s \<Rightarrow> s | None \<Rightarrow> [])"
    by (auto simp: compute_quote_def Let_def split: sum.splits prod.splits)
  show "q_tier q \<in> {''fragile'', ''perishable'', ''electronics'', ''standard''}"
    unfolding t by (rule item_tier_range)
next
  fix q
  assume "estimate_quote pickup dropoff vehicle item_type quantity weight_lb length_in
            width_in height_in weather traffic = Inr q"
  then have "q_tier q = spec_tier (q_price q)"
    by (auto simp only: estimate_quote_def estimate_from_miles_tier split: sum.splits)
  then show "q_tier q = ''Saver'' \<longleftrightarrow> q_price q < 12"
    "q_tier q = ''Standard'' \<longleftrightarrow> 12 \<le> q_price q \<and> q_price q < 30"
    "q_tier q = ''Priority'' \<longleftrightarrow> 30 \<le> q_price q \<and> q_price q < 80"
    "q_tier q = ''Pro Load'' \<longleftrightarrow> 80 \<le> q_price q"
    using spec_tier_thresholds [of "q_price q"] by simp_all
qed

theorem quote_tier_witness:
  "estimate_quote (0, 0) (0, 0) ''bike'' ''general'' 1 0 12 8 6 ''clear'' ''med''
     = Inr \<lparr>q_price = 5.23, q_eta = 5, q_miles = 0, q_tier = ''Saver''\<rparr> \<and>
   (5.23 :: real) < 12 \<and>
   compute_quote example_request
     = Inr \<lparr>q_price = 4.67, q_eta = 10, q_miles = 0.5, q_tier = ''standard''\<rparr> \<and>
   item_tier ''general'' = ''standard''"
proof -
  have c: "r_item_type example_request = Some ''general''"
    by (simp add: example_request_def)
  from quote_tier
    [of "(0, 0)" "(0, 0)" "''bike''" "''general''" 1 0 12 8 6 "''clear''" "''med''"
        example_request]
  show ?thesis
    by (simp add: estimate_quote_example compute_quote_example c)
qed

subsection \<open>Monotonicity in the distance\<close>








subsection \<open>The half-mile floor of the mounted quote\<close>

lemma haversine_like_floor: "0.5 \<le> haversine_like pu dr"
  by (auto simp: haversine_like_def max_def split: prod.splits)

lemma haversine_like_same_point: "haversine_like p p = 0.5"
  by (simp add: haversine_like_def split: prod.splits)

lemma round2_half: "round2 0.5 = 0.5"
  by (simp add: round2_def round_half_even_def)

lemma per_mile_nonneg: "0 \<le> per_mile data"
  by (simp add: per_mile_def vehicle_multiplier_def dict_get_def)

lemma qty_factor_nonneg: "0 \<le> qty_factor data"
  by (simp add: qty_factor_def)

lemma compute_quote_Inr:
  assumes "compute_quote data = Inr q"
  obtains pu dr where "resolve_points data = Inr (pu, dr)"
    and "q_miles q = round2 (haversine_like pu dr)"
    and "q_price q = round2 ((3.5 + haversine_like pu dr * per_mile data) * qty_factor data *
                              weight_factor data * size_factor_q data)"
    and "q_eta q = max 10 (py_int (haversine_like pu dr * 3))"
  using assms
  by (auto simp: compute_quote_def Let_def split: sum.splits prod.splits)

text \<open>
  C10. Whenever \<^verbatim>\<open>compute_quote\<close> returns a result, the distance it prices is
  \<^verbatim>\<open>haversine_like\<close> of the two points, which is at least 0.5 miles; the returned
  miles value is that distance rounded and is at least 0.5; the price is computed from
  that distance. When pickup equals dropoff the miles value is 0.5 and the price is that
  of a half-mile trip; when the weight and size factors are not negative, the price is
  at least that of a half-mile trip.
\<close>

theorem compute_quote_half_mile_floor:
  assumes "compute_quote data = Inr q"
  shows "0.5 \<le> q_miles q \<and>
         (\<exists>pu dr. resolve_points data = Inr (pu, dr) \<and>
            0.5 \<le> haversine_like pu dr \<and>
            q_miles q = round2 (haversine_like pu dr) \<and>
            q_price q = round2 ((3.5 + haversine_like pu dr * per_mile data) * qty_factor data *
                                 weight_factor data * size_factor_q data) \<and>
            (pu = dr \<longrightarrow>
               q_miles q = 0.5 \<and>
               q_price q = round2 ((3.5 + 0.5 * per_mile data) * qty_factor data *
                                    weight_factor data * size_factor_q data)) \<and>
            (0 \<le> weight_factor data * size_factor_q data \<longrightarrow>
               round2 ((3.5 + 0.5 * per_mile data) * qty_factor data *
                        weight_factor data * size_factor_q data) \<le> q_price q))"
proof -
  from assms obtain pu dr where r: "resolve_points data = Inr (pu, dr)"
    and m: "q_miles q = round2 (haversine_like pu dr)"
    and p: "q_price q = round2 ((3.5 + haversine_like pu dr * per_mile data) * qty_factor data *
                              weight_factor data * size_factor_q data)"
    by (rule compute_quote_Inr)
  have fl: "0.5 \<le> haversine_like pu dr"
    by (rule haversine_like_floor)
  have miles: "0.5 \<le> q_miles q"
    using round2_mono [OF fl] by (simp only: m round2_half)
  have same: "q_miles q = 0.5 \<and>
      q_price q = round2 ((3.5 + 0.5 * per_mile data) * qty_factor data *
                           weight_factor data * size_factor_q data)" if "pu = dr"
    using that by (simp only: m p haversine_like_same_point round2_half simp_thms)
  have least: "round2 ((3.5 + 0.5 * per_mile data) * qty_factor data *
                        weight_factor data * size_factor_q data) \<le> q_price q"
    if f: "0 \<le> weight_factor data * size_factor_q data"
  proof -
    have "0.5 * per_mile data \<le> haversine_like pu dr * per_mile data"
      using fl per_mile_nonneg by (intro mult_right_mono)
    then have "3.5 + 0.5 * per_mile data \<le> 3.5 + haversine_like pu dr * per_mile data"
      by (intro add_left_mono)
    moreover have "0 \<le> qty_factor data * (weight_factor data * size_factor_q data)"
      by (rule mult_nonneg_nonneg [OF qty_factor_nonneg f])
    ultimately have
      "(3.5 + 0.5 * per_mile data) * (qty_factor data * (weight_factor data * size_factor_q data))
        \<le> (3.5 + haversine_like pu dr * per_mile data) *
            (qty_factor data * (weight_factor data * size_factor_q data))"
      by (intro mult_right_mono)
    then have "(3.5 + 0.5 * per_mile data) * qty_factor data * weight_factor data * size_factor_q data
        \<le> (3.5 + haversine_like pu dr * per_mile data) * qty_factor data *
            weight_factor data * size_factor_q data"
      by (simp only: mult.assoc)
    then show ?thesis
      unfolding p by (rule round2_mono)
  qed
  show ?thesis
    using r fl m p same least miles by blast
qed

theorem compute_quote_half_mile_floor_witness:
  "compute_quote example_request
     = Inr \<lparr>q_price = 4.67, q_eta = 10, q_miles = 0.5, q_tier = ''standard''\<rparr> \<and>
   (0.5 :: real) \<le> q_miles \<lparr>q_price = 4.67, q_eta = 10, q_miles = 0.5, q_tier = ''standard''\<rparr>"
  using compute_quote_half_mile_floor [OF compute_quote_example] compute_quote_example
  by blast

end
